theory Spec2Isabelle
  imports Main
begin


section \<open>The boundary: what the program sees of the cloud and of the backend\<close>

text \<open>
  The program of \<^verbatim>\<open>src/app.py\<close> talks to three services: the EC2 control API
  (NAT gateways and one route table), the inference backend's HTTP API (pull and tags)
  and the ECS / autoscaling control API. None of them is part of the repository, so
  each answer of a service is a parameter of the model: a value of \<open>'a resp\<close>, which
  is either the returned value or a raised exception. Every handler of the source is
  \<^verbatim>\<open>except Exception\<close>, so one constructor stands for all exceptions.
\<close>

datatype 'a resp = Raises | Returns 'a

text \<open>
  The target of a route as \<^verbatim>\<open>replace_route\<close> receives it: the keyword argument
  that names the kind of target, with the identifier.
\<close>

datatype route_target =
    NatGatewayId_kw string
  | GatewayId_kw string
  | InstanceId_kw string
  | NetworkInterfaceId_kw string

text \<open>
  Every request the program issues, and every pause, in the order of issue. The
  identifiers read once from the process environment (\<^verbatim>\<open>SUBNET_ID\<close>,
  \<^verbatim>\<open>ALLOCATION_ID\<close>, \<^verbatim>\<open>ROUTE_TABLE_ID\<close>, the destination
  \<^verbatim>\<open>0.0.0.0/0\<close>) are the same in every request and are left out.
\<close>

datatype call =
    DescribeNatGatewaysInSubnet
  | DescribeRouteTables
  | CreateNatGateway
  | DescribeNatGatewayById string
  | ReplaceRoute "route_target option"
  | DeleteNatGateway string
  | Sleep nat
  | PostPull string
  | AsyncSleep nat
  | GetTags
  | UpdateAutoScalingGroup string nat nat
  | UpdateService string string nat
  | ListTasks string string
  | StopTask string string
  | DescribeTasks string string

text \<open>
  A route of the table as \<^verbatim>\<open>describe_route_tables\<close> reports it: a dictionary,
  of which the program reads five keys with \<^verbatim>\<open>route.get\<close> (an absent key reads as
  \<open>None\<close>). A route whose target is of a kind the program does not read (a transit
  gateway, a peering connection) has none of the four target keys.
\<close>

record route =
  DestinationCidrBlock :: "string option"
  NatGatewayId :: "string option"
  GatewayId :: "string option"
  InstanceId :: "string option"
  NetworkInterfaceId :: "string option"

text \<open>
  The dictionary \<^verbatim>\<open>get_current_default_route\<close> builds: always the same four keys,
  each holding an identifier or \<open>None\<close>.
\<close>

record saved_route =
  saved_NatGatewayId :: "string option"
  saved_GatewayId :: "string option"
  saved_InstanceId :: "string option"
  saved_NetworkInterfaceId :: "string option"

text \<open>
  The state the run changes: the routes of the one route table, and the log of the
  requests issued so far.
\<close>

record world =
  routes :: "route list"
  trace :: "call list"

text \<open>One entry of an inventory (\<^verbatim>\<open>/api/tags\<close>): a dictionary, read with
  \<^verbatim>\<open>m.get("name")\<close>, or a value that has no \<^verbatim>\<open>get\<close> (the read raises).\<close>

datatype model_entry = Named "string option" | Malformed

text \<open>The body of a tags response: \<^verbatim>\<open>resp_tags.json().get("models", [])\<close> either
  raises (no JSON, not a dictionary) or yields the list (empty when the key is absent).\<close>

datatype tags_body = BadBody | Models "model_entry list"

text \<open>
  The answers of the services and the configuration of the process. An answer that
  depends on when it is asked is a function of the attempt number of the loop that asks.
\<close>

record env =
  OLLAMA_HOST_env :: string
  describe_subnet_resp :: "string list resp"
  describe_route_tables_raises :: bool
  create_resp :: "string resp"
  describe_by_id_resp :: "nat \<Rightarrow> bool resp"
  attach_resp :: "unit resp"
  delete_resp :: "unit resp"
  restore_resp :: "unit resp"
  pull_resp :: "nat \<Rightarrow> nat resp"
  tags_resp :: "nat \<Rightarrow> (nat \<times> tags_body) resp"
  CLUSTER_NAME :: "string option"
  SERVICE_NAME :: "string option"
  AUTOSCALING_GROUP_NAME :: "string option"
  update_asg_resp :: "unit resp"
  update_service_resp :: "unit resp"
  list_tasks_resp :: "string list resp"
  stop_task_resp :: "string \<Rightarrow> unit resp"
  describe_tasks_resp :: "string \<Rightarrow> string list resp"

text \<open>Python's truth value of a string and of a string-or-\<open>None\<close>.\<close>

definition truthy :: "string \<Rightarrow> bool" where
  "truthy s = (s \<noteq> [])"

fun truthy_opt :: "string option \<Rightarrow> bool" where
  "truthy_opt None = False"
| "truthy_opt (Some s) = truthy s"

definition issue :: "call \<Rightarrow> world \<Rightarrow> world" where
  "issue c w = w\<lparr>trace := trace w @ [c]\<rparr>"

section \<open>The EC2 service\<close>

definition default_cidr :: string where
  "default_cidr = ''0.0.0.0/0''"

text \<open>The route a successful \<^verbatim>\<open>replace_route\<close> leaves in the table.\<close>

fun route_to :: "route_target \<Rightarrow> route" where
  "route_to (NatGatewayId_kw g) =
     \<lparr>DestinationCidrBlock = Some default_cidr, NatGatewayId = Some g, GatewayId = None,
      InstanceId = None, NetworkInterfaceId = None\<rparr>"
| "route_to (GatewayId_kw g) =
     \<lparr>DestinationCidrBlock = Some default_cidr, NatGatewayId = None, GatewayId = Some g,
      InstanceId = None, NetworkInterfaceId = None\<rparr>"
| "route_to (InstanceId_kw g) =
     \<lparr>DestinationCidrBlock = Some default_cidr, NatGatewayId = None, GatewayId = None,
      InstanceId = Some g, NetworkInterfaceId = None\<rparr>"
| "route_to (NetworkInterfaceId_kw g) =
     \<lparr>DestinationCidrBlock = Some default_cidr, NatGatewayId = None, GatewayId = None,
      InstanceId = None, NetworkInterfaceId = Some g\<rparr>"

text \<open>
  The service replaces the route of the table whose destination is the default one;
  a table without such a route has nothing to replace.
\<close>

fun put_default_route :: "route_target \<Rightarrow> route list \<Rightarrow> route list option" where
  "put_default_route t [] = None"
| "put_default_route t (r # rs) =
     (if DestinationCidrBlock r = Some default_cidr then Some (route_to t # rs)
      else map_option (Cons r) (put_default_route t rs))"

text \<open>
  \<^verbatim>\<open>ec2_client.replace_route(**kwargs)\<close>. The request is logged; it raises when the
  service answers so, when no target is given, or when the table has no default route
  to replace, and the table is unchanged then. Otherwise the default route gets the
  target.
\<close>

definition ec2_replace_route :: "unit resp \<Rightarrow> route_target option \<Rightarrow> world \<Rightarrow> unit resp \<times> world" where
  "ec2_replace_route answer kw w =
     (let w1 = issue (ReplaceRoute kw) w in
      case answer of
        Raises \<Rightarrow> (Raises, w1)
      | Returns _ \<Rightarrow>
          (case kw of
             None \<Rightarrow> (Raises, w1)
           | Some t \<Rightarrow>
               (case put_default_route t (routes w1) of
                  None \<Rightarrow> (Raises, w1)
                | Some rs \<Rightarrow> (Returns (), w1\<lparr>routes := rs\<rparr>))))"

section \<open>NAT gateway helpers\<close>

text \<open>
  \<^verbatim>\<open>check_nat_gateway_status\<close>: the first gateway of the answer, or \<open>None\<close> when the
  answer is empty. The function has no handler: an exception of the request leaves it.
\<close>

definition check_nat_gateway_status :: "env \<Rightarrow> world \<Rightarrow> string option resp \<times> world" where
  "check_nat_gateway_status e w =
     (let w1 = issue DescribeNatGatewaysInSubnet w in
      case describe_subnet_resp e of
        Raises \<Rightarrow> (Raises, w1)
      | Returns gws \<Rightarrow> (Returns (case gws of [] \<Rightarrow> None | g # _ \<Rightarrow> Some g), w1))"

text \<open>\<^verbatim>\<open>create_nat_gateway\<close>: the new identifier, or \<open>None\<close> when the request raises.\<close>

definition create_nat_gateway :: "env \<Rightarrow> world \<Rightarrow> string option \<times> world" where
  "create_nat_gateway e w =
     (let w1 = issue CreateNatGateway w in
      case create_resp e of
        Raises \<Rightarrow> (None, w1)
      | Returns nat_id \<Rightarrow> (Some nat_id, w1))"

text \<open>
  \<^verbatim>\<open>is_nat_gateway_available\<close>, asked for the \<open>i\<close>-th time: whether the answer lists the
  gateway in state available; \<open>False\<close> when the request raises.
\<close>

definition is_nat_gateway_available :: "env \<Rightarrow> string \<Rightarrow> nat \<Rightarrow> world \<Rightarrow> bool \<times> world" where
  "is_nat_gateway_available e nat_gateway_id i w =
     (let w1 = issue (DescribeNatGatewayById nat_gateway_id) w in
      case describe_by_id_resp e i of
        Raises \<Rightarrow> (False, w1)
      | Returns listed \<Rightarrow> (listed, w1))"

text \<open>\<^verbatim>\<open>attach_nat_gateway_to_route_table\<close>: \<open>True\<close> when the route was replaced,
  \<open>False\<close> when the request raised.\<close>

definition attach_nat_gateway_to_route_table :: "env \<Rightarrow> string \<Rightarrow> world \<Rightarrow> bool \<times> world" where
  "attach_nat_gateway_to_route_table e nat_gateway_id w =
     (case ec2_replace_route (attach_resp e) (Some (NatGatewayId_kw nat_gateway_id)) w of
        (Raises, w1) \<Rightarrow> (False, w1)
      | (Returns _, w1) \<Rightarrow> (True, w1))"

text \<open>\<^verbatim>\<open>delete_nat_gateway\<close>: \<open>True\<close> when the request returned, \<open>False\<close> when it raised.\<close>

definition delete_nat_gateway :: "env \<Rightarrow> string \<Rightarrow> world \<Rightarrow> bool \<times> world" where
  "delete_nat_gateway e nat_gateway_id w =
     (let w1 = issue (DeleteNatGateway nat_gateway_id) w in
      case delete_resp e of
        Raises \<Rightarrow> (False, w1)
      | Returns _ \<Rightarrow> (True, w1))"

text \<open>The loop of \<^verbatim>\<open>get_current_default_route\<close>: the first route whose destination is
  the default one, reduced to the four target keys.\<close>

fun find_default_route :: "route list \<Rightarrow> saved_route option" where
  "find_default_route [] = None"
| "find_default_route (r # rs) =
     (if DestinationCidrBlock r = Some default_cidr
      then Some \<lparr>saved_NatGatewayId = NatGatewayId r, saved_GatewayId = GatewayId r,
                 saved_InstanceId = InstanceId r,
                 saved_NetworkInterfaceId = NetworkInterfaceId r\<rparr>
      else find_default_route rs)"

text \<open>\<^verbatim>\<open>get_current_default_route\<close>: \<open>None\<close> when the request raises or the table has
  no default route.\<close>

definition get_current_default_route :: "env \<Rightarrow> world \<Rightarrow> saved_route option \<times> world" where
  "get_current_default_route e w =
     (let w1 = issue DescribeRouteTables w in
      if describe_route_tables_raises e then (None, w1)
      else (find_default_route (routes w1), w1))"

text \<open>
  The loop over the four keys in \<^verbatim>\<open>restore_default_route\<close>, which stops at the first
  key whose saved value is truthy: the keyword argument added to the request, if any.
\<close>

definition first_target :: "saved_route \<Rightarrow> route_target option" where
  "first_target original_route =
     (if truthy_opt (saved_NatGatewayId original_route)
        then Some (NatGatewayId_kw (the (saved_NatGatewayId original_route)))
      else if truthy_opt (saved_GatewayId original_route)
        then Some (GatewayId_kw (the (saved_GatewayId original_route)))
      else if truthy_opt (saved_InstanceId original_route)
        then Some (InstanceId_kw (the (saved_InstanceId original_route)))
      else if truthy_opt (saved_NetworkInterfaceId original_route)
        then Some (NetworkInterfaceId_kw (the (saved_NetworkInterfaceId original_route)))
      else None)"

text \<open>\<^verbatim>\<open>restore_default_route\<close>: \<open>True\<close> when the route was replaced, \<open>False\<close> when the
  request raised.\<close>

definition restore_default_route :: "env \<Rightarrow> saved_route \<Rightarrow> world \<Rightarrow> bool \<times> world" where
  "restore_default_route e original_route w =
     (case ec2_replace_route (restore_resp e) (first_target original_route) w of
        (Raises, w1) \<Rightarrow> (False, w1)
      | (Returns _, w1) \<Rightarrow> (True, w1))"

section \<open>The model pull task\<close>

text \<open>
  The loop \<^verbatim>\<open>for _ in range(40)\<close> of \<^verbatim>\<open>pull_model_task\<close>, over the attempt numbers
  still to run: it leaves with \<open>True\<close> (the \<^verbatim>\<open>break\<close>) at the first attempt that finds
  the gateway available, sleeps 15 after every other attempt, and leaves with \<open>False\<close>
  (the \<^verbatim>\<open>else\<close> of the loop) when the attempts are used up.
\<close>

fun wait_until_available :: "env \<Rightarrow> string \<Rightarrow> nat list \<Rightarrow> world \<Rightarrow> bool \<times> world" where
  "wait_until_available e nat_gateway_id [] w = (False, w)"
| "wait_until_available e nat_gateway_id (i # rest) w =
     (case is_nat_gateway_available e nat_gateway_id i w of
        (available, w1) \<Rightarrow>
          if available then (True, w1)
          else wait_until_available e nat_gateway_id rest (issue (Sleep 15) w1))"

text \<open>The pull request of one round: its answer and its exception are only logged.\<close>

definition post_pull :: "env \<Rightarrow> string \<Rightarrow> nat \<Rightarrow> world \<Rightarrow> world" where
  "post_pull e model_name attempt w =
     (let w1 = issue (PostPull model_name) w in
      case pull_resp e attempt of
        Raises \<Rightarrow> w1
      | Returns status_code \<Rightarrow> w1)"

text \<open>\<^verbatim>\<open>any(m.get("name") == model_name for m in models)\<close>: it stops at the first
  entry with the name, and raises at an entry it cannot read before that.\<close>

fun any_name :: "string \<Rightarrow> model_entry list \<Rightarrow> bool resp" where
  "any_name model_name [] = Returns False"
| "any_name model_name (Malformed # ms) = Raises"
| "any_name model_name (Named n # ms) =
     (if n = Some model_name then Returns True else any_name model_name ms)"

text \<open>
  The check of one round (the second \<^verbatim>\<open>try\<close> of the loop): \<open>True\<close> exactly when the
  round reaches \<^verbatim>\<open>break\<close>, that is when the tags request returns status 200 with a
  body that lists the name. An exception is logged and the round ends without it.
\<close>

definition tags_report :: "env \<Rightarrow> string \<Rightarrow> nat \<Rightarrow> bool" where
  "tags_report e model_name attempt =
     (case tags_resp e attempt of
        Raises \<Rightarrow> False
      | Returns (status_code, body) \<Rightarrow>
          if status_code = 200 then
            (case body of
               BadBody \<Rightarrow> False
             | Models ms \<Rightarrow>
                 (case any_name model_name ms of Raises \<Rightarrow> False | Returns found \<Rightarrow> found))
          else False)"

text \<open>
  How the pull loop ended: \<open>Success\<close> is the \<^verbatim>\<open>break\<close> (the log line "is now
  available locally"), \<open>NotAvailableAfterRetries\<close> the \<^verbatim>\<open>else\<close> of the loop (the
  warning "was not available after 10 attempts").
\<close>

datatype pull_outcome = Success | NotAvailableAfterRetries

fun pull_rounds :: "env \<Rightarrow> string \<Rightarrow> nat list \<Rightarrow> world \<Rightarrow> pull_outcome \<times> world" where
  "pull_rounds e model_name [] w = (NotAvailableAfterRetries, w)"
| "pull_rounds e model_name (attempt # rest) w =
     (let w1 = post_pull e model_name attempt w;
          w2 = issue (AsyncSleep 60) w1;
          w3 = issue GetTags w2
      in if tags_report e model_name attempt then (Success, w3)
         else pull_rounds e model_name rest w3)"

definition pull_loop :: "env \<Rightarrow> string \<Rightarrow> world \<Rightarrow> pull_outcome \<times> world" where
  "pull_loop e model_name w = pull_rounds e model_name [0..<10] w"

text \<open>
  The clean-up at the end of \<^verbatim>\<open>pull_model_task\<close> (under the second test of
  \<^verbatim>\<open>OLLAMA_HOST\<close>): the gateway is deleted when its identifier is truthy, and then the
  saved route is restored when there is one. The saved dictionary always has its four
  keys, so its truth value is that of not being \<open>None\<close>.
\<close>

definition clean_up :: "env \<Rightarrow> string \<Rightarrow> saved_route option \<Rightarrow> world \<Rightarrow> world" where
  "clean_up e nat_gateway_id original_route w =
     (if truthy nat_gateway_id then
        (let w1 = snd (delete_nat_gateway e nat_gateway_id w) in
         case original_route of
           None \<Rightarrow> w1
         | Some saved \<Rightarrow> snd (restore_default_route e saved w1))
      else w)"

text \<open>
  How a run of the task ended: the exception of \<^verbatim>\<open>check_nat_gateway_status\<close> left it,
  one of its two \<^verbatim>\<open>return\<close>s ended it early, or it ran to its last line.
\<close>

datatype run_end =
    Raised
  | CreateFailed
  | ProvisioningTimeout
  | Completed pull_outcome

text \<open>The task from the attach on, once a gateway identifier is at hand: attach (its
  result is not read), sleep 20, the pull loop, the clean-up.\<close>

definition attach_pull_clean_up ::
    "env \<Rightarrow> string \<Rightarrow> string \<Rightarrow> saved_route option \<Rightarrow> world \<Rightarrow> run_end \<times> world" where
  "attach_pull_clean_up e model_name nat_gateway_id original_route w =
     (let w1 = snd (attach_nat_gateway_to_route_table e nat_gateway_id w);
          w2 = issue (Sleep 20) w1
      in case pull_loop e model_name w2 of
           (outcome, w3) \<Rightarrow> (Completed outcome, clean_up e nat_gateway_id original_route w3))"

definition pull_model_task :: "env \<Rightarrow> string \<Rightarrow> world \<Rightarrow> run_end \<times> world" where
  "pull_model_task e model_name w =
     (if truthy (OLLAMA_HOST_env e) then
        (case check_nat_gateway_status e w of
           (Raises, w1) \<Rightarrow> (Raised, w1)
         | (Returns nat_gateway_id, w1) \<Rightarrow>
             (case get_current_default_route e w1 of
                (original_route, w2) \<Rightarrow>
                  if truthy_opt nat_gateway_id
                  then attach_pull_clean_up e model_name (the nat_gateway_id) original_route w2
                  else
                    (case create_nat_gateway e w2 of
                       (created, w3) \<Rightarrow>
                         if \<not> truthy_opt created then (CreateFailed, w3)
                         else
                           (case wait_until_available e (the created) [0..<40] w3 of
                              (available, w4) \<Rightarrow>
                                if available
                                then attach_pull_clean_up e model_name (the created)
                                       original_route w4
                                else (ProvisioningTimeout, w4)))))
      else
        (case pull_loop e model_name w of
           (outcome, w1) \<Rightarrow> (Completed outcome, w1)))"

section \<open>The fleet: tasks of the service\<close>

text \<open>\<^verbatim>\<open>list_ecs_tasks\<close>: the task ARNs of the answer, the empty list when the request
  raises.\<close>

definition list_ecs_tasks :: "env \<Rightarrow> string \<Rightarrow> string \<Rightarrow> world \<Rightarrow> string list \<times> world" where
  "list_ecs_tasks e cluster_name service_name w =
     (let w1 = issue (ListTasks cluster_name service_name) w in
      case list_tasks_resp e of
        Raises \<Rightarrow> ([], w1)
      | Returns taskArns \<Rightarrow> (taskArns, w1))"

text \<open>The loop of \<^verbatim>\<open>stop_ecs_tasks\<close>: one stop request per task; an exception is logged
  and the loop goes on.\<close>

fun stop_each :: "env \<Rightarrow> string \<Rightarrow> string list \<Rightarrow> world \<Rightarrow> world" where
  "stop_each e cluster_name [] w = w"
| "stop_each e cluster_name (task # tasks) w =
     (let w1 = issue (StopTask cluster_name task) w in
      case stop_task_resp e task of
        Raises \<Rightarrow> stop_each e cluster_name tasks w1
      | Returns _ \<Rightarrow> stop_each e cluster_name tasks w1)"

definition stop_ecs_tasks :: "env \<Rightarrow> string \<Rightarrow> string \<Rightarrow> world \<Rightarrow> world" where
  "stop_ecs_tasks e cluster_name service_name w =
     (case list_ecs_tasks e cluster_name service_name w of
        (tasks, w1) \<Rightarrow> if tasks = [] then w1 else stop_each e cluster_name tasks w1)"

text \<open>
  \<^verbatim>\<open>get_ecs_task_status\<close>: \<^verbatim>\<open>response['tasks'][0]['lastStatus']\<close>, or \<open>None\<close> when the
  request raises or the answer lists no task (the index raises inside the handler).
\<close>

definition get_ecs_task_status :: "env \<Rightarrow> string \<Rightarrow> string \<Rightarrow> world \<Rightarrow> string option \<times> world" where
  "get_ecs_task_status e cluster_name task_arn w =
     (let w1 = issue (DescribeTasks cluster_name task_arn) w in
      case describe_tasks_resp e task_arn of
        Raises \<Rightarrow> (None, w1)
      | Returns [] \<Rightarrow> (None, w1)
      | Returns (lastStatus # _) \<Rightarrow> (Some lastStatus, w1))"

text \<open>An \<^verbatim>\<open>HTTPException\<close>, by its status code.\<close>

datatype http_error = HTTPException nat

text \<open>
  The dictionary \<^verbatim>\<open>selfhost_status\<close> returns. \<open>status\<close> is \<open>None\<close> for Python's
  \<open>None\<close>; \<open>task_arn\<close> is \<open>None\<close> when the dictionary has no such key.
\<close>

record status_reply =
  ready :: bool
  status :: "string option"
  task_arn :: "string option"

definition selfhost_status :: "env \<Rightarrow> world \<Rightarrow> (http_error + status_reply) \<times> world" where
  "selfhost_status e w =
     (if \<not> (truthy_opt (CLUSTER_NAME e) \<and> truthy_opt (SERVICE_NAME e))
      then (Inl (HTTPException 400), w)
      else
        (case list_ecs_tasks e (the (CLUSTER_NAME e)) (the (SERVICE_NAME e)) w of
           (tasks, w1) \<Rightarrow>
             if tasks = []
             then (Inr \<lparr>ready = False, status = Some ''NO_TASKS'', task_arn = None\<rparr>, w1)
             else
               (let latest_task_arn = last tasks in
                case get_ecs_task_status e (the (CLUSTER_NAME e)) latest_task_arn w1 of
                  (st, w2) \<Rightarrow>
                    (Inr \<lparr>ready = (st = Some ''RUNNING''), status = st,
                          task_arn = Some latest_task_arn\<rparr>, w2))))"

text \<open>
  \<^verbatim>\<open>shutdown_ecs_service\<close>: the two capacities are set to 0, then the tasks are
  stopped; an exception of either update becomes an \<^verbatim>\<open>HTTPException\<close> with status 500
  and nothing after it runs.
\<close>

definition shutdown_ecs_service :: "env \<Rightarrow> world \<Rightarrow> (http_error + string) \<times> world" where
  "shutdown_ecs_service e w =
     (if \<not> (truthy_opt (CLUSTER_NAME e) \<and> truthy_opt (SERVICE_NAME e)
             \<and> truthy_opt (AUTOSCALING_GROUP_NAME e))
      then (Inl (HTTPException 400), w)
      else
        (let w1 = issue (UpdateAutoScalingGroup (the (AUTOSCALING_GROUP_NAME e)) 0 0) w in
         case update_asg_resp e of
           Raises \<Rightarrow> (Inl (HTTPException 500), w1)
         | Returns _ \<Rightarrow>
             (let w2 = issue (UpdateService (the (CLUSTER_NAME e)) (the (SERVICE_NAME e)) 0) w1 in
              case update_service_resp e of
                Raises \<Rightarrow> (Inl (HTTPException 500), w2)
              | Returns _ \<Rightarrow>
                  (Inr ''success'',
                   stop_ecs_tasks e (the (CLUSTER_NAME e)) (the (SERVICE_NAME e)) w2))))"

section \<open>Notions used in the statements\<close>


text \<open>The routes of the table after one \<^verbatim>\<open>replace_route\<close> request.\<close>

definition routes_after_replace :: "unit resp \<Rightarrow> route_target option \<Rightarrow> route list \<Rightarrow> route list" where
  "routes_after_replace answer kw rs =
     routes (snd (ec2_replace_route answer kw \<lparr>routes = rs, trace = []\<rparr>))"

text \<open>The value \<^verbatim>\<open>original_route\<close> of a run started in a world: what
  \<^verbatim>\<open>get_current_default_route\<close> returns there.\<close>

definition snapshot_of :: "env \<Rightarrow> world \<Rightarrow> saved_route option" where
  "snapshot_of e w = fst (get_current_default_route e w)"

text \<open>The requests of a run before the attach: none of them touches the route table.\<close>

definition provisioning_call :: "call \<Rightarrow> bool" where
  "provisioning_call c =
     (case c of
        DescribeNatGatewaysInSubnet \<Rightarrow> True
      | DescribeRouteTables \<Rightarrow> True
      | CreateNatGateway \<Rightarrow> True
      | DescribeNatGatewayById _ \<Rightarrow> True
      | Sleep n \<Rightarrow> n = 15
      | _ \<Rightarrow> False)"


section \<open>Scenarios\<close>

text \<open>
  Concrete services and worlds, on which the theorems below are instantiated. In
  \<open>quiet_env\<close> every request returns, the subnet has no gateway, a created gateway is
  available at once, the inventory is empty and the service has no task.
\<close>

definition quiet_env :: env where
  "quiet_env =
     \<lparr>OLLAMA_HOST_env = ''http://ollama:11434'',
      describe_subnet_resp = Returns [],
      describe_route_tables_raises = False,
      create_resp = Returns ''nat-new'',
      describe_by_id_resp = (\<lambda>i. Returns True),
      attach_resp = Returns (),
      delete_resp = Returns (),
      restore_resp = Returns (),
      pull_resp = (\<lambda>i. Returns 200),
      tags_resp = (\<lambda>i. Returns (200, Models [])),
      CLUSTER_NAME = Some ''cluster'',
      SERVICE_NAME = Some ''service'',
      AUTOSCALING_GROUP_NAME = Some ''asg'',
      update_asg_resp = Returns (),
      update_service_resp = Returns (),
      list_tasks_resp = Returns [],
      stop_task_resp = (\<lambda>t. Returns ()),
      describe_tasks_resp = (\<lambda>t. Returns [''RUNNING''])\<rparr>"

definition empty_world :: world where
  "empty_world = \<lparr>routes = [], trace = []\<rparr>"

definition found_in_round_3_env :: env where
  "found_in_round_3_env =
     quiet_env\<lparr>pull_resp := (\<lambda>i. if i = 0 then Raises else Returns 500),
               tags_resp := (\<lambda>i. if i = 2 then Returns (200, Models [Named (Some ''llama3'')])
                                  else Returns (200, Models []))\<rparr>"

definition three_tasks_env :: env where
  "three_tasks_env =
     quiet_env\<lparr>list_tasks_resp := Returns [''task-a'', ''task-b'', ''task-c''],
               stop_task_resp := (\<lambda>t. if t = ''task-a'' then Raises else Returns ()),
               describe_tasks_resp := (\<lambda>t. if t = ''task-c'' then Raises else Returns [''RUNNING''])\<rparr>"

definition pending_last_env :: env where
  "pending_last_env =
     quiet_env\<lparr>list_tasks_resp := Returns [''task-a'', ''task-b''],
               describe_tasks_resp := (\<lambda>t. if t = ''task-b'' then Returns [''PENDING'']
                                            else Returns [''RUNNING''])\<rparr>"

text \<open>
  \<open>ready_env\<close> is \<open>quiet_env\<close> with the model in the inventory from the first round on;
  \<open>igw_world\<close> is a route table whose default route goes to an internet gateway, with an
  empty log. The other scenarios change one answer each.
\<close>

definition ready_env :: env where
  "ready_env = quiet_env\<lparr>tags_resp := (\<lambda>i. Returns (200, Models [Named (Some ''llama3'')]))\<rparr>"

definition igw_world :: world where
  "igw_world =
     \<lparr>routes =
        [\<lparr>DestinationCidrBlock = Some ''10.0.0.0/16'', NatGatewayId = None,
          GatewayId = Some ''local'', InstanceId = None, NetworkInterfaceId = None\<rparr>,
         \<lparr>DestinationCidrBlock = Some ''0.0.0.0/0'', NatGatewayId = None,
          GatewayId = Some ''igw-1'', InstanceId = None, NetworkInterfaceId = None\<rparr>],
      trace = []\<rparr>"

definition reuse_env :: env where
  "reuse_env = ready_env\<lparr>describe_subnet_resp := Returns [''nat-existing'']\<rparr>"




definition attach_fails_late_env :: env where
  "attach_fails_late_env =
     ready_env\<lparr>attach_resp := Raises, describe_by_id_resp := (\<lambda>i. Returns (0 < i))\<rparr>"

definition local_only_world :: world where
  "local_only_world =
     \<lparr>routes =
        [\<lparr>DestinationCidrBlock = Some ''10.0.0.0/16'', NatGatewayId = None,
          GatewayId = Some ''local'', InstanceId = None, NetworkInterfaceId = None\<rparr>],
      trace = []\<rparr>"


definition never_available_env :: env where
  "never_available_env =
     ready_env\<lparr>describe_by_id_resp := (\<lambda>i. if i mod 2 = 0 then Returns False else Raises)\<rparr>"


section \<open>Properties of the helpers and of the loops\<close>

lemma trace_issue [simp]: "trace (issue c w) = trace w @ [c]"
  by (simp add: issue_def)

lemma routes_issue [simp]: "routes (issue c w) = routes w"
  by (simp add: issue_def)

lemma issue_log: "issue c (w\<lparr>trace := tr\<rparr>) = w\<lparr>trace := tr @ [c]\<rparr>"
  by (simp add: issue_def)

lemma post_pull_issue: "post_pull e m i w = issue (PostPull m) w"
  by (simp add: post_pull_def Let_def split: resp.splits)

lemma stop_each_trace:
  "stop_each e c tasks w = w\<lparr>trace := trace w @ map (StopTask c) tasks\<rparr>"
  by (induction tasks arbitrary: w) (simp_all add: issue_def Let_def split: resp.splits)

lemma pull_rounds_none:
  "\<forall>i\<in>set is. \<not> tags_report e m i \<Longrightarrow>
   pull_rounds e m is w =
     (NotAvailableAfterRetries,
      w\<lparr>trace := trace w @ concat (replicate (length is) [PostPull m, AsyncSleep 60, GetTags])\<rparr>)"
  by (induction "is" arbitrary: w) (simp_all add: post_pull_issue issue_def)

lemma pull_rounds_found:
  "\<forall>i\<in>set pre. \<not> tags_report e m i \<Longrightarrow> tags_report e m k \<Longrightarrow>
   pull_rounds e m (pre @ k # post) w =
     (Success,
      w\<lparr>trace := trace w @ concat (replicate (Suc (length pre)) [PostPull m, AsyncSleep 60, GetTags])\<rparr>)"
  by (induction pre arbitrary: w) (simp_all add: post_pull_issue issue_def)

lemma upt_split: "k < n \<Longrightarrow> [0..<n] = [0..<k] @ k # [Suc k..<n]"
proof -
  assume kn: "k < n"
  have "[0..<k + (n - k)] = [0..<k] @ [k..<k + (n - k)]"
    by (rule upt_add_eq_append) simp
  with kn show ?thesis
    by (simp add: upt_conv_Cons)
qed

lemma pull_loop_found:
  assumes "k < 10" "tags_report e m k" "\<forall>j<k. \<not> tags_report e m j"
  shows "pull_loop e m w =
     (Success, w\<lparr>trace := trace w @ concat (replicate (Suc k) [PostPull m, AsyncSleep 60, GetTags])\<rparr>)"
proof -
  have "[0..<10] = [0..<k] @ k # [Suc k..<10]"
    using assms(1) by (rule upt_split)
  moreover have "\<forall>i\<in>set [0..<k]. \<not> tags_report e m i"
    using assms(3) by simp
  ultimately show ?thesis
    unfolding pull_loop_def using pull_rounds_found [OF _ assms(2), of "[0..<k]" "[Suc k..<10]" w]
    by simp
qed

lemma pull_loop_none:
  assumes "\<forall>j<10. \<not> tags_report e m j"
  shows "pull_loop e m w =
     (NotAvailableAfterRetries,
      w\<lparr>trace := trace w @ concat (replicate 10 [PostPull m, AsyncSleep 60, GetTags])\<rparr>)"
proof -
  have "\<forall>i\<in>set [0..<10]. \<not> tags_report e m i"
    using assms by simp
  from pull_rounds_none [OF this, of w] show ?thesis
    unfolding pull_loop_def by simp
qed

lemma first_below:
  "(\<exists>k<n. P k \<and> (\<forall>j<k. \<not> P j)) \<or> (\<forall>j<n. \<not> P (j::nat))"
proof (cases "\<exists>k<n. P k")
  case True
  then obtain k0 where k0: "k0 < n \<and> P k0" by blast
  define Q where "Q = (\<lambda>k. k < n \<and> P k)"
  have "Q k0" using k0 by (simp add: Q_def)
  then have first: "Q (LEAST k. Q k)"
    by (rule LeastI)
  have "\<not> Q j" if "j < (LEAST k. Q k)" for j
    using that by (rule not_less_Least)
  with first show ?thesis
    unfolding Q_def by (metis less_trans)
next
  case False
  then show ?thesis by blast
qed

lemma pull_loop_cases:
  "(\<exists>k<10. tags_report e m k \<and> (\<forall>j<k. \<not> tags_report e m j)) \<or> (\<forall>j<10. \<not> tags_report e m j)"
  by (rule first_below)

lemma pull_loop_shape:
  "\<exists>outcome r. 1 \<le> r \<and> r \<le> 10 \<and>
     (\<forall>w. pull_loop e m w =
        (outcome, w\<lparr>trace := trace w @ concat (replicate r [PostPull m, AsyncSleep 60, GetTags])\<rparr>))"
proof -
  from pull_loop_cases [of e m] show ?thesis
  proof
    assume "\<exists>k<10. tags_report e m k \<and> (\<forall>j<k. \<not> tags_report e m j)"
    then obtain k where k: "k < 10" "tags_report e m k" "\<forall>j<k. \<not> tags_report e m j"
      by blast
    have "\<forall>w. pull_loop e m w =
        (Success, w\<lparr>trace := trace w @ concat (replicate (Suc k) [PostPull m, AsyncSleep 60, GetTags])\<rparr>)"
      using pull_loop_found [OF k] by blast
    moreover have "1 \<le> Suc k" "Suc k \<le> 10" using k(1) by simp_all
    ultimately show ?thesis by blast
  next
    assume "\<forall>j<10. \<not> tags_report e m j"
    then have "\<forall>w. pull_loop e m w =
        (NotAvailableAfterRetries,
         w\<lparr>trace := trace w @ concat (replicate 10 [PostPull m, AsyncSleep 60, GetTags])\<rparr>)"
      using pull_loop_none by blast
    moreover have "(1::nat) \<le> 10" by simp
    ultimately show ?thesis by blast
  qed
qed

lemma trace_ec2_replace_route:
  "trace (snd (ec2_replace_route a kw w)) = trace w @ [ReplaceRoute kw]"
  by (simp add: ec2_replace_route_def Let_def split: resp.splits option.splits)

lemma snd_attach:
  "snd (attach_nat_gateway_to_route_table e g w) =
     snd (ec2_replace_route (attach_resp e) (Some (NatGatewayId_kw g)) w)"
  by (auto simp: attach_nat_gateway_to_route_table_def split: prod.splits resp.splits)

lemma snd_restore:
  "snd (restore_default_route e s w) =
     snd (ec2_replace_route (restore_resp e) (first_target s) w)"
  by (auto simp: restore_default_route_def split: prod.splits resp.splits)

lemma trace_attach:
  "trace (snd (attach_nat_gateway_to_route_table e g w)) =
     trace w @ [ReplaceRoute (Some (NatGatewayId_kw g))]"
  by (simp add: snd_attach trace_ec2_replace_route)

lemma trace_restore:
  "trace (snd (restore_default_route e s w)) = trace w @ [ReplaceRoute (first_target s)]"
  by (simp add: snd_restore trace_ec2_replace_route)

lemma snd_delete:
  "snd (delete_nat_gateway e g w) = issue (DeleteNatGateway g) w"
  by (simp add: delete_nat_gateway_def Let_def split: resp.splits)

lemma trace_clean_up:
  "truthy g \<Longrightarrow>
   trace (clean_up e g orig w) =
     trace w @ DeleteNatGateway g #
       (case orig of None \<Rightarrow> [] | Some s \<Rightarrow> [ReplaceRoute (first_target s)])"
  by (simp add: clean_up_def Let_def snd_delete trace_restore split: option.splits)

lemma apc_trace:
  assumes "truthy g"
  shows "\<exists>outcome r. 1 \<le> r \<and> r \<le> 10 \<and>
     fst (attach_pull_clean_up e m g orig w) = Completed outcome \<and>
     trace (snd (attach_pull_clean_up e m g orig w)) =
       trace w @ [ReplaceRoute (Some (NatGatewayId_kw g)), Sleep 20]
         @ concat (replicate r [PostPull m, AsyncSleep 60, GetTags])
         @ DeleteNatGateway g #
           (case orig of None \<Rightarrow> [] | Some s \<Rightarrow> [ReplaceRoute (first_target s)])"
proof -
  obtain outcome r where r: "1 \<le> r" "r \<le> 10"
    and loop: "\<And>w. pull_loop e m w =
        (outcome, w\<lparr>trace := trace w @ concat (replicate r [PostPull m, AsyncSleep 60, GetTags])\<rparr>)"
    using pull_loop_shape [of e m] by blast
  have "fst (attach_pull_clean_up e m g orig w) = Completed outcome"
    by (simp add: attach_pull_clean_up_def Let_def loop)
  moreover have "trace (snd (attach_pull_clean_up e m g orig w)) =
       trace w @ [ReplaceRoute (Some (NatGatewayId_kw g)), Sleep 20]
         @ concat (replicate r [PostPull m, AsyncSleep 60, GetTags])
         @ DeleteNatGateway g #
           (case orig of None \<Rightarrow> [] | Some s \<Rightarrow> [ReplaceRoute (first_target s)])"
    by (simp add: attach_pull_clean_up_def Let_def loop trace_clean_up [OF assms] trace_attach)
  ultimately show ?thesis using r by blast
qed

lemma tags_report_pull_resp:
  "tags_report (e\<lparr>pull_resp := p\<rparr>) m i = tags_report e m i"
  by (simp add: tags_report_def)

lemma pull_rounds_pull_resp:
  "pull_rounds (e\<lparr>pull_resp := p\<rparr>) m is w = pull_rounds e m is w"
  by (induction "is" arbitrary: w) (simp_all add: post_pull_issue tags_report_pull_resp Let_def)

lemma any_name_named:
  "any_name m (map Named ns) = Returns (Some m \<in> set ns)"
  by (induction ns) auto

lemma is_available_eq:
  "is_nat_gateway_available e g i w =
     (describe_by_id_resp e i = Returns True, issue (DescribeNatGatewayById g) w)"
  by (auto simp: is_nat_gateway_available_def Let_def split: resp.splits)

lemma wait_none:
  "\<forall>i\<in>set is. describe_by_id_resp e i \<noteq> Returns True \<Longrightarrow>
   wait_until_available e g is w =
     (False,
      w\<lparr>trace := trace w @ concat (replicate (length is) [DescribeNatGatewayById g, Sleep 15])\<rparr>)"
  by (induction "is" arbitrary: w) (simp_all add: is_available_eq issue_def)

lemma wait_found:
  "\<forall>i\<in>set pre. describe_by_id_resp e i \<noteq> Returns True \<Longrightarrow>
   describe_by_id_resp e k = Returns True \<Longrightarrow>
   wait_until_available e g (pre @ k # post) w =
     (True,
      w\<lparr>trace := trace w @ concat (replicate (length pre) [DescribeNatGatewayById g, Sleep 15])
                  @ [DescribeNatGatewayById g]\<rparr>)"
  by (induction pre arbitrary: w) (simp_all add: is_available_eq issue_def)

lemma wait_40_found:
  assumes "k < 40" "describe_by_id_resp e k = Returns True"
    "\<forall>j<k. describe_by_id_resp e j \<noteq> Returns True"
  shows "wait_until_available e g [0..<40] w =
     (True,
      w\<lparr>trace := trace w @ concat (replicate k [DescribeNatGatewayById g, Sleep 15])
                  @ [DescribeNatGatewayById g]\<rparr>)"
proof -
  have "[0..<40] = [0..<k] @ k # [Suc k..<40]"
    using assms(1) by (rule upt_split)
  moreover have "\<forall>i\<in>set [0..<k]. describe_by_id_resp e i \<noteq> Returns True"
    using assms(3) by simp
  ultimately show ?thesis
    using wait_found [OF _ assms(2), of "[0..<k]" g "[Suc k..<40]" w] by simp
qed

lemma wait_40_none:
  assumes "\<forall>j<40. describe_by_id_resp e j \<noteq> Returns True"
  shows "wait_until_available e g [0..<40] w =
     (False,
      w\<lparr>trace := trace w @ concat (replicate 40 [DescribeNatGatewayById g, Sleep 15])\<rparr>)"
proof -
  have "\<forall>i\<in>set [0..<40]. describe_by_id_resp e i \<noteq> Returns True"
    using assms by simp
  from wait_none [OF this, of g w] show ?thesis by simp
qed

lemma routes_ec2_replace_route:
  "routes (snd (ec2_replace_route a kw w)) = routes_after_replace a kw (routes w)"
  by (simp add: routes_after_replace_def ec2_replace_route_def Let_def issue_def
      split: resp.splits option.splits)

lemma routes_clean_up:
  "truthy g \<Longrightarrow>
   routes (clean_up e g orig w) =
     (case orig of None \<Rightarrow> routes w
      | Some s \<Rightarrow> routes_after_replace (restore_resp e) (first_target s) (routes w))"
  by (simp add: clean_up_def Let_def snd_delete snd_restore routes_ec2_replace_route
      split: option.splits)

lemma apc_routes:
  assumes "truthy g"
  shows "routes (snd (attach_pull_clean_up e m g orig w)) =
     (case orig of
        None \<Rightarrow> routes_after_replace (attach_resp e) (Some (NatGatewayId_kw g)) (routes w)
      | Some s \<Rightarrow> routes_after_replace (restore_resp e) (first_target s)
                   (routes_after_replace (attach_resp e) (Some (NatGatewayId_kw g)) (routes w)))"
proof -
  obtain outcome r where
    loop: "\<And>w. pull_loop e m w =
        (outcome, w\<lparr>trace := trace w @ concat (replicate r [PostPull m, AsyncSleep 60, GetTags])\<rparr>)"
    using pull_loop_shape [of e m] by blast
  show ?thesis
    by (simp add: attach_pull_clean_up_def Let_def loop routes_clean_up [OF assms] snd_attach
        routes_ec2_replace_route split: option.splits)
qed

lemma check_eq:
  "check_nat_gateway_status e w =
     (case describe_subnet_resp e of
        Raises \<Rightarrow> Raises
      | Returns gws \<Rightarrow> Returns (case gws of [] \<Rightarrow> None | g # _ \<Rightarrow> Some g),
      issue DescribeNatGatewaysInSubnet w)"
  by (simp add: check_nat_gateway_status_def Let_def split: resp.splits)

lemma snapshot_eq:
  "get_current_default_route e w = (snapshot_of e w, issue DescribeRouteTables w)"
  by (simp add: snapshot_of_def get_current_default_route_def Let_def)

lemma snapshot_of_issue:
  "snapshot_of e (issue c w) = snapshot_of e w"
  by (simp add: snapshot_of_def get_current_default_route_def Let_def)

lemma create_eq:
  "create_nat_gateway e w =
     (case create_resp e of Raises \<Rightarrow> None | Returns g \<Rightarrow> Some g, issue CreateNatGateway w)"
  by (simp add: create_nat_gateway_def Let_def split: resp.splits)

lemma provisioning_polls:
  "list_all provisioning_call (concat (replicate n [DescribeNatGatewayById g, Sleep 15]))"
  by (induction n) (simp_all add: provisioning_call_def)

lemma run_cases [consumes 1]:
  assumes run: "pull_model_task e m w = (r, w')"
  obtains
    (no_host) outcome n where "\<not> truthy (OLLAMA_HOST_env e)" "r = Completed outcome" "1 \<le> n" "n \<le> 10"
      "trace w' = trace w @ concat (replicate n [PostPull m, AsyncSleep 60, GetTags])"
      "routes w' = routes w"
  | (raised) "truthy (OLLAMA_HOST_env e)" "describe_subnet_resp e = Raises" "r = Raised"
      "trace w' = trace w @ [DescribeNatGatewaysInSubnet]" "routes w' = routes w"
  | (create_failed) "truthy (OLLAMA_HOST_env e)" "r = CreateFailed"
      "trace w' = trace w @ [DescribeNatGatewaysInSubnet, DescribeRouteTables, CreateNatGateway]"
      "routes w' = routes w"
  | (timeout) g where "truthy (OLLAMA_HOST_env e)" "r = ProvisioningTimeout" "create_resp e = Returns g"
      "\<forall>j<40. describe_by_id_resp e j \<noteq> Returns True"
      "trace w' = trace w @ [DescribeNatGatewaysInSubnet, DescribeRouteTables, CreateNatGateway]
          @ concat (replicate 40 [DescribeNatGatewayById g, Sleep 15])"
      "routes w' = routes w"
  | (completed) outcome g pre n where "truthy (OLLAMA_HOST_env e)" "r = Completed outcome" "truthy g"
      "1 \<le> n" "n \<le> 10" "list_all provisioning_call pre"
      "trace w' = trace w @ pre @ [ReplaceRoute (Some (NatGatewayId_kw g)), Sleep 20]
          @ concat (replicate n [PostPull m, AsyncSleep 60, GetTags])
          @ DeleteNatGateway g # (case snapshot_of e w of None \<Rightarrow> [] | Some saved \<Rightarrow> [ReplaceRoute (first_target saved)])"
      "routes w' =
         (case snapshot_of e w of
            None \<Rightarrow> routes_after_replace (attach_resp e) (Some (NatGatewayId_kw g)) (routes w)
          | Some s \<Rightarrow> routes_after_replace (restore_resp e) (first_target s)
                 (routes_after_replace (attach_resp e) (Some (NatGatewayId_kw g)) (routes w)))"
proof (cases "truthy (OLLAMA_HOST_env e)")
  case False
  obtain outcome n where n: "1 \<le> n" "n \<le> 10"
    and loop: "\<And>w. pull_loop e m w =
        (outcome, w\<lparr>trace := trace w @ concat (replicate n [PostPull m, AsyncSleep 60, GetTags])\<rparr>)"
    using pull_loop_shape [of e m] by blast
  from run False have "r = Completed outcome"
    "w' = w\<lparr>trace := trace w @ concat (replicate n [PostPull m, AsyncSleep 60, GetTags])\<rparr>"
    by (simp_all add: pull_model_task_def loop)
  with False n show ?thesis
    by (intro no_host) simp_all
next
  case True
  then have host: "truthy (OLLAMA_HOST_env e)" .
  define w2 where "w2 = issue DescribeRouteTables (issue DescribeNatGatewaysInSubnet w)"
  have w2: "trace w2 = trace w @ [DescribeNatGatewaysInSubnet, DescribeRouteTables]"
    "routes w2 = routes w"
    by (simp_all add: w2_def)
  have apc: thesis
    if g: "truthy g" and pre: "list_all provisioning_call pre"
      and w3: "trace w3 = trace w @ pre" "routes w3 = routes w"
      and r: "(r, w') = attach_pull_clean_up e m g (snapshot_of e w) w3" for g pre w3
  proof -
    obtain outcome n where n: "1 \<le> n" "n \<le> 10"
      and fst: "fst (attach_pull_clean_up e m g (snapshot_of e w) w3) = Completed outcome"
      and tr: "trace (snd (attach_pull_clean_up e m g (snapshot_of e w) w3)) =
         trace w3 @ [ReplaceRoute (Some (NatGatewayId_kw g)), Sleep 20]
           @ concat (replicate n [PostPull m, AsyncSleep 60, GetTags])
           @ DeleteNatGateway g #
             (case snapshot_of e w of None \<Rightarrow> [] | Some s \<Rightarrow> [ReplaceRoute (first_target s)])"
      using apc_trace [OF g, of e m "snapshot_of e w" w3] by blast
    from r fst have "r = Completed outcome"
      by (metis fst_conv)
    moreover from r tr w3 have "trace w' = trace w @ pre @ [ReplaceRoute (Some (NatGatewayId_kw g)), Sleep 20]
          @ concat (replicate n [PostPull m, AsyncSleep 60, GetTags])
          @ DeleteNatGateway g # (case snapshot_of e w of None \<Rightarrow> [] | Some saved \<Rightarrow> [ReplaceRoute (first_target saved)])"
      by (simp flip: r)
    moreover from r w3 have "routes w' =
         (case snapshot_of e w of
            None \<Rightarrow> routes_after_replace (attach_resp e) (Some (NatGatewayId_kw g)) (routes w)
          | Some s \<Rightarrow> routes_after_replace (restore_resp e) (first_target s)
                 (routes_after_replace (attach_resp e) (Some (NatGatewayId_kw g)) (routes w)))"
      using apc_routes [OF g, of e m "snapshot_of e w" w3] by (simp flip: r split: option.splits)
    ultimately show thesis
      using host g n pre by (intro completed)
  qed
  show ?thesis
  proof (cases "describe_subnet_resp e")
    case Raises
    with run host have "r = Raised" "w' = issue DescribeNatGatewaysInSubnet w"
      by (simp_all add: pull_model_task_def check_eq)
    with host Raises show ?thesis
      by (intro raised) simp_all
  next
    case (Returns gws)
    define found where "found = (case gws of [] \<Rightarrow> None | g # _ \<Rightarrow> Some g)"
    show ?thesis
    proof (cases "truthy_opt found")
      case True
      then obtain g where g: "found = Some g" "truthy g"
        by (cases found) simp_all
      from run host Returns True g
      have run2: "(r, w') = attach_pull_clean_up e m g (snapshot_of e w) w2"
        by (simp add: pull_model_task_def check_eq snapshot_eq snapshot_of_issue found_def w2_def)
      have pre: "list_all provisioning_call [DescribeNatGatewaysInSubnet, DescribeRouteTables]"
        by (simp add: provisioning_call_def)
      show ?thesis
        by (rule apc [OF g(2) pre w2(1) w2(2) run2])
    next
      case False
      then have nf: "\<not> truthy_opt (case gws of [] \<Rightarrow> None | g # _ \<Rightarrow> Some g)"
        by (simp add: found_def)
      define w3 where "w3 = issue CreateNatGateway w2"
      have w3: "trace w3 = trace w @ [DescribeNatGatewaysInSubnet, DescribeRouteTables, CreateNatGateway]"
        "routes w3 = routes w"
        by (simp_all add: w3_def w2)
      define created where "created = (case create_resp e of Raises \<Rightarrow> None | Returns g \<Rightarrow> Some g)"
      show ?thesis
      proof (cases "truthy_opt created")
        case False
        then have nc: "\<not> truthy_opt (case create_resp e of Raises \<Rightarrow> None | Returns g \<Rightarrow> Some g)"
          by (simp add: created_def)
        from nf nc host Returns run have "r = CreateFailed" "w' = w3"
          by (simp_all add: pull_model_task_def check_eq snapshot_eq snapshot_of_issue
              create_eq w2_def w3_def)
        with host w3 show ?thesis
          by (intro create_failed) simp_all
      next
        case True
        then obtain g where g: "created = Some g" "truthy g"
          by (cases created) simp_all
        then have cr: "create_resp e = Returns g"
          by (simp add: created_def split: resp.splits)
        have run': "(r, w') =
            (case wait_until_available e g [0..<40] w3 of
               (available, w4) \<Rightarrow>
                 if available then attach_pull_clean_up e m g (snapshot_of e w) w4
                 else (ProvisioningTimeout, w4))"
          using nf cr g(2) host Returns run
          by (auto simp: pull_model_task_def check_eq snapshot_eq snapshot_of_issue
              create_eq w2_def w3_def split: prod.splits)
        from first_below [of 40 "\<lambda>k. describe_by_id_resp e k = Returns True"]
        show ?thesis
        proof
          assume "\<exists>k<40. describe_by_id_resp e k = Returns True
              \<and> (\<forall>j<k. describe_by_id_resp e j \<noteq> Returns True)"
          then obtain k where k: "k < 40" "describe_by_id_resp e k = Returns True"
            "\<forall>j<k. describe_by_id_resp e j \<noteq> Returns True"
            by blast
          define w4 where "w4 = w3\<lparr>trace := trace w3
              @ concat (replicate k [DescribeNatGatewayById g, Sleep 15])
              @ [DescribeNatGatewayById g]\<rparr>"
          define pre where "pre = [DescribeNatGatewaysInSubnet, DescribeRouteTables, CreateNatGateway]
              @ concat (replicate k [DescribeNatGatewayById g, Sleep 15])
              @ [DescribeNatGatewayById g]"
          have run4: "(r, w') = attach_pull_clean_up e m g (snapshot_of e w) w4"
            using run' wait_40_found [OF k, of g w3] by (simp add: w4_def)
          have pre: "list_all provisioning_call pre"
            using provisioning_polls [of k g] by (simp add: pre_def provisioning_call_def)
          have w4: "trace w4 = trace w @ pre" "routes w4 = routes w"
            by (simp_all add: w4_def pre_def w3)
          show ?thesis
            by (rule apc [OF g(2) pre w4 run4])
        next
          assume never: "\<forall>j<40. describe_by_id_resp e j \<noteq> Returns True"
          then have "r = ProvisioningTimeout"
            "w' = w3\<lparr>trace := trace w3 @ concat (replicate 40 [DescribeNatGatewayById g, Sleep 15])\<rparr>"
            using run' wait_40_none [OF never, of g w3] by simp_all
          with host cr never w3 show ?thesis
            by (intro timeout) simp_all
        qed
      qed
    qed
  qed
qed


lemma put_none: "find_default_route rs = None \<Longrightarrow> put_default_route t rs = None"
  by (induction rs) (simp_all split: if_splits)


lemma routes_after_replace_eq:
  "routes_after_replace a kw rs =
     (case a of
        Raises \<Rightarrow> rs
      | Returns _ \<Rightarrow>
          (case kw of
             None \<Rightarrow> rs
           | Some t \<Rightarrow> (case put_default_route t rs of None \<Rightarrow> rs | Some rs' \<Rightarrow> rs')))"
  by (simp add: routes_after_replace_def ec2_replace_route_def Let_def issue_def
      split: resp.splits option.splits)





lemma in_concat_replicate: "c \<in> set (concat (replicate n xs)) \<Longrightarrow> c \<in> set xs"
  by (induction n) auto

lemma in_rounds: "1 \<le> n \<Longrightarrow> c \<in> set xs \<Longrightarrow> c \<in> set (concat (replicate n xs))"
  by (cases n) simp_all

lemma put_none_iff: "(put_default_route t rs = None) = (find_default_route rs = None)"
  by (induction rs) simp_all

lemma attach_result:
  "fst (attach_nat_gateway_to_route_table e g w) =
     (attach_resp e \<noteq> Raises \<and> find_default_route (routes w) \<noteq> None)"
proof (cases "put_default_route (NatGatewayId_kw g) (routes w)")
  case None
  then show ?thesis
    using put_none_iff [of "NatGatewayId_kw g" "routes w"]
    by (simp add: attach_nat_gateway_to_route_table_def ec2_replace_route_def Let_def
        split: resp.splits)
next
  case (Some rs)
  then show ?thesis
    using put_none_iff [of "NatGatewayId_kw g" "routes w"]
    by (simp add: attach_nat_gateway_to_route_table_def ec2_replace_route_def Let_def
        split: resp.splits)
qed

lemma failed_attach_routes:
  "\<not> fst (attach_nat_gateway_to_route_table e g w) \<Longrightarrow>
   routes_after_replace (attach_resp e) (Some (NatGatewayId_kw g)) (routes w) = routes w"
  using put_none_iff [of "NatGatewayId_kw g" "routes w"]
  by (auto simp: attach_result routes_after_replace_eq split: resp.splits option.splits)





section \<open>The lifecycle of the NAT gateway\<close>

text \<open>
  Claim C1. A gateway that a run finds already available (the reuse path) is not deleted
  by that run. The code does not keep this: the run below finds \<open>nat-existing\<close>, issues
  no create request, and its clean-up issues the delete request for \<open>nat-existing\<close>.
  The clean-up tests only that the identifier is truthy, which holds for a found gateway
  as for a created one.
\<close>

theorem reused_gateway_is_deleted:
  "pull_model_task reuse_env ''llama3'' igw_world =
     (Completed Success,
      \<lparr>routes = routes igw_world,
       trace = [DescribeNatGatewaysInSubnet, DescribeRouteTables,
                ReplaceRoute (Some (NatGatewayId_kw ''nat-existing'')), Sleep 20,
                PostPull ''llama3'', AsyncSleep 60, GetTags,
                DeleteNatGateway ''nat-existing'',
                ReplaceRoute (Some (GatewayId_kw ''igw-1''))]\<rparr>)"
  by code_simp







text \<open>
  Claim C4, amended. For every run in which the attach fails (the request raises, or the
  table has no default route to replace), the failure is not fatal, it is only logged:
  the result of the attach is not read. The run pauses 20 and proceeds to the pull loop
  (1 to 10 rounds), and only after the pull to the teardown of a gateway the run created:
  the delete request for it, then the restore of the saved route if one was captured.
  The failed attach has left the route table as it was.

  Whether the attach fails depends only on the answer of the service and on the routes of
  the table, which no request before the attach changes; so the hypothesis, on the world
  the run starts in and for any identifier \<open>g0\<close>, covers every failing attach, and the
  conclusion names the attach the run executes. What follows the pull when the gateway
  was found rather than created is left open here.
\<close>

theorem attach_failure_not_fatal:
  assumes "truthy (OLLAMA_HOST_env e)"
    and "pull_model_task e m w = (Completed outcome, w')"
    and "\<not> fst (attach_nat_gateway_to_route_table e g0 w)"
  shows "\<exists>g pre n rest.
      list_all provisioning_call pre \<and> 1 \<le> n \<and> n \<le> 10
      \<and> \<not> fst (attach_nat_gateway_to_route_table e g (w\<lparr>trace := trace w @ pre\<rparr>))
      \<and> routes_after_replace (attach_resp e) (Some (NatGatewayId_kw g)) (routes w) = routes w
      \<and> trace w' =
          trace w @ pre @ [ReplaceRoute (Some (NatGatewayId_kw g)), Sleep 20]
            @ concat (replicate n [PostPull m, AsyncSleep 60, GetTags]) @ rest
      \<and> (CreateNatGateway \<in> set pre \<longrightarrow>
           rest = DeleteNatGateway g #
             (case snapshot_of e w of
                None \<Rightarrow> []
              | Some saved \<Rightarrow> [ReplaceRoute (first_target saved)]))"
  using assms(2)
proof (cases rule: run_cases)
  case (completed outcome' g pre n)
  define rest where "rest = DeleteNatGateway g #
      (case snapshot_of e w of None \<Rightarrow> [] | Some saved \<Rightarrow> [ReplaceRoute (first_target saved)])"
  have failed: "\<not> fst (attach_nat_gateway_to_route_table e g (w\<lparr>trace := trace w @ pre\<rparr>))"
    using assms(3) by (simp add: attach_result)
  have untouched: "routes_after_replace (attach_resp e) (Some (NatGatewayId_kw g)) (routes w) = routes w"
    using failed failed_attach_routes [of e g "w\<lparr>trace := trace w @ pre\<rparr>"] by simp
  have "trace w' =
          trace w @ pre @ [ReplaceRoute (Some (NatGatewayId_kw g)), Sleep 20]
            @ concat (replicate n [PostPull m, AsyncSleep 60, GetTags]) @ rest"
    using completed(7) by (simp add: rest_def)
  moreover have "CreateNatGateway \<in> set pre \<longrightarrow>
      rest = DeleteNatGateway g #
        (case snapshot_of e w of None \<Rightarrow> [] | Some saved \<Rightarrow> [ReplaceRoute (first_target saved)])"
    by (simp add: rest_def)
  ultimately show ?thesis
    using completed(4,5,6) failed untouched by blast
qed (use assms(1) in simp_all)

theorem attach_failure_not_fatal_witness:
  "truthy (OLLAMA_HOST_env attach_fails_late_env)
   \<and> fst (pull_model_task attach_fails_late_env ''llama3'' igw_world) = Completed Success
   \<and> fst (attach_nat_gateway_to_route_table attach_fails_late_env ''nat-new'' igw_world) = False
   \<and> PostPull ''llama3'' \<in> set (trace (snd (pull_model_task attach_fails_late_env ''llama3'' igw_world)))
   \<and> truthy (OLLAMA_HOST_env ready_env)
   \<and> attach_resp ready_env = Returns ()
   \<and> fst (pull_model_task ready_env ''llama3'' local_only_world) = Completed Success
   \<and> fst (attach_nat_gateway_to_route_table ready_env ''nat-new'' local_only_world) = False
   \<and> PostPull ''llama3'' \<in> set (trace (snd (pull_model_task ready_env ''llama3'' local_only_world)))"
proof -
  have pulled: "PostPull m \<in> set (trace w')"
    if "truthy (OLLAMA_HOST_env e)" and "fst (pull_model_task e m w) = Completed outcome"
      and "w' = snd (pull_model_task e m w)"
      and "\<not> fst (attach_nat_gateway_to_route_table e g0 w)" for e m w w' outcome g0
  proof -
    have run: "pull_model_task e m w = (Completed outcome, w')"
      using that(2,3) by (metis prod.collapse)
    from attach_failure_not_fatal [OF that(1) run that(4)]
    obtain g pre n rest where n: "1 \<le> n"
      and tr: "trace w' =
          trace w @ pre @ [ReplaceRoute (Some (NatGatewayId_kw g)), Sleep 20]
            @ concat (replicate n [PostPull m, AsyncSleep 60, GetTags]) @ rest"
      by blast
    have "PostPull m \<in> set (concat (replicate n [PostPull m, AsyncSleep 60, GetTags]))"
      using n by (intro in_rounds) simp_all
    then show ?thesis
      unfolding tr by simp
  qed
  have host1: "truthy (OLLAMA_HOST_env attach_fails_late_env)"
    and host2: "truthy (OLLAMA_HOST_env ready_env)"
    and returns: "attach_resp ready_env = Returns ()"
    by code_simp+
  have ended1: "fst (pull_model_task attach_fails_late_env ''llama3'' igw_world) = Completed Success"
    by code_simp
  have ended2: "fst (pull_model_task ready_env ''llama3'' local_only_world) = Completed Success"
    by code_simp
  have fails1: "fst (attach_nat_gateway_to_route_table attach_fails_late_env ''nat-new'' igw_world) = False"
    by code_simp
  have fails2: "fst (attach_nat_gateway_to_route_table ready_env ''nat-new'' local_only_world) = False"
    by code_simp
  have "PostPull ''llama3'' \<in> set (trace (snd (pull_model_task attach_fails_late_env ''llama3'' igw_world)))"
    using pulled [OF host1 ended1 refl] fails1 by simp
  moreover have "PostPull ''llama3'' \<in> set (trace (snd (pull_model_task ready_env ''llama3'' local_only_world)))"
    using pulled [OF host2 ended2 refl] fails2 by simp
  ultimately show ?thesis
    using host1 host2 returns ended1 ended2 fails1 fails2 by (intro conjI)
qed

text \<open>
  As stated (the run does not proceed to the pull, and goes directly to the teardown),
  the claim fails: in this run, which creates the gateway, the attach raises, and the
  pull request is issued after it and before the delete.
\<close>

theorem attach_failure_not_fatal_counterexample:
  "attach_resp attach_fails_late_env = Raises
   \<and> pull_model_task attach_fails_late_env ''llama3'' igw_world =
     (Completed Success,
      \<lparr>routes = routes igw_world,
       trace = [DescribeNatGatewaysInSubnet, DescribeRouteTables, CreateNatGateway,
                DescribeNatGatewayById ''nat-new'', Sleep 15,
                DescribeNatGatewayById ''nat-new'',
                ReplaceRoute (Some (NatGatewayId_kw ''nat-new'')), Sleep 20,
                PostPull ''llama3'', AsyncSleep 60, GetTags,
                DeleteNatGateway ''nat-new'',
                ReplaceRoute (Some (GatewayId_kw ''igw-1''))]\<rparr>)
   \<and> fst (attach_nat_gateway_to_route_table attach_fails_late_env ''nat-new''
            (issue (DescribeNatGatewayById ''nat-new'')
              (issue (Sleep 15)
                (issue (DescribeNatGatewayById ''nat-new'')
                  (issue CreateNatGateway
                    (issue DescribeRouteTables
                      (issue DescribeNatGatewaysInSubnet igw_world))))))) = False"
  by code_simp

text \<open>
  Claim C5. In a run that creates a gateway, availability is asked at most 40 times, with
  a pause of 15 after every attempt that does not find the gateway available. When all
  40 attempts fail (the request raises or does not list the gateway), the run ends with
  \<open>ProvisioningTimeout\<close>, having issued the two describe requests, the create request
  and the 40 polls and pauses, and nothing else: no attach, no pull, no delete, no
  restore. When attempt \<open>k\<close> is the first to find it, \<open>k\<close> polls and pauses precede it
  and the attach follows it.
\<close>

theorem provisioning_timeout:
  assumes "truthy (OLLAMA_HOST_env e)"
    and "describe_subnet_resp e = Returns []"
    and "create_resp e = Returns g"
    and "truthy g"
  shows "((\<forall>j<40. describe_by_id_resp e j \<noteq> Returns True) \<longrightarrow>
           pull_model_task e m w =
             (ProvisioningTimeout,
              w\<lparr>trace := trace w
                   @ [DescribeNatGatewaysInSubnet, DescribeRouteTables, CreateNatGateway]
                   @ concat (replicate 40 [DescribeNatGatewayById g, Sleep 15])\<rparr>))
     \<and> (k < 40 \<and> describe_by_id_resp e k = Returns True
          \<and> (\<forall>j<k. describe_by_id_resp e j \<noteq> Returns True) \<longrightarrow>
           (\<exists>rest. trace (snd (pull_model_task e m w)) =
              trace w @ [DescribeNatGatewaysInSubnet, DescribeRouteTables, CreateNatGateway]
                @ concat (replicate k [DescribeNatGatewayById g, Sleep 15])
                @ [DescribeNatGatewayById g, ReplaceRoute (Some (NatGatewayId_kw g)), Sleep 20]
                @ rest))"
proof (intro conjI impI)
  define w3 where "w3 = issue CreateNatGateway
      (issue DescribeRouteTables (issue DescribeNatGatewaysInSubnet w))"
  have run: "pull_model_task e m w =
      (case wait_until_available e g [0..<40] w3 of
         (available, w4) \<Rightarrow>
           if available then attach_pull_clean_up e m g (snapshot_of e w) w4
           else (ProvisioningTimeout, w4))"
    using assms
    by (simp add: pull_model_task_def check_eq snapshot_eq snapshot_of_issue create_eq w3_def
        split: prod.splits)
  {
    assume never: "\<forall>j<40. describe_by_id_resp e j \<noteq> Returns True"
    show "pull_model_task e m w =
             (ProvisioningTimeout,
              w\<lparr>trace := trace w
                   @ [DescribeNatGatewaysInSubnet, DescribeRouteTables, CreateNatGateway]
                   @ concat (replicate 40 [DescribeNatGatewayById g, Sleep 15])\<rparr>)"
      by (simp add: run wait_40_none [OF never] w3_def issue_def)
  }
  {
    assume "k < 40 \<and> describe_by_id_resp e k = Returns True
          \<and> (\<forall>j<k. describe_by_id_resp e j \<noteq> Returns True)"
    then have k: "k < 40" "describe_by_id_resp e k = Returns True"
      "\<forall>j<k. describe_by_id_resp e j \<noteq> Returns True"
      by simp_all
    define w4 where "w4 = w3\<lparr>trace := trace w3
        @ concat (replicate k [DescribeNatGatewayById g, Sleep 15])
        @ [DescribeNatGatewayById g]\<rparr>"
    have run4: "pull_model_task e m w = attach_pull_clean_up e m g (snapshot_of e w) w4"
      by (simp add: run wait_40_found [OF k] w4_def)
    obtain outcome n where
      "trace (snd (attach_pull_clean_up e m g (snapshot_of e w) w4)) =
         trace w4 @ [ReplaceRoute (Some (NatGatewayId_kw g)), Sleep 20]
           @ concat (replicate n [PostPull m, AsyncSleep 60, GetTags])
           @ DeleteNatGateway g #
             (case snapshot_of e w of None \<Rightarrow> [] | Some s \<Rightarrow> [ReplaceRoute (first_target s)])"
      using apc_trace [OF assms(4), of e m "snapshot_of e w" w4] by blast
    then have "trace (snd (pull_model_task e m w)) =
        trace w @ [DescribeNatGatewaysInSubnet, DescribeRouteTables, CreateNatGateway]
          @ concat (replicate k [DescribeNatGatewayById g, Sleep 15])
          @ [DescribeNatGatewayById g, ReplaceRoute (Some (NatGatewayId_kw g)), Sleep 20]
          @ (concat (replicate n [PostPull m, AsyncSleep 60, GetTags])
             @ DeleteNatGateway g #
               (case snapshot_of e w of None \<Rightarrow> [] | Some s \<Rightarrow> [ReplaceRoute (first_target s)]))"
      by (simp add: run4 w4_def w3_def)
    then show "\<exists>rest. trace (snd (pull_model_task e m w)) =
        trace w @ [DescribeNatGatewaysInSubnet, DescribeRouteTables, CreateNatGateway]
          @ concat (replicate k [DescribeNatGatewayById g, Sleep 15])
          @ [DescribeNatGatewayById g, ReplaceRoute (Some (NatGatewayId_kw g)), Sleep 20]
          @ rest"
      by blast
  }
qed

theorem provisioning_timeout_witness:
  "truthy (OLLAMA_HOST_env never_available_env)
   \<and> describe_subnet_resp never_available_env = Returns []
   \<and> create_resp never_available_env = Returns ''nat-new''
   \<and> truthy ''nat-new''
   \<and> pull_model_task never_available_env ''llama3'' igw_world =
       (ProvisioningTimeout,
        \<lparr>routes = routes igw_world,
         trace = [DescribeNatGatewaysInSubnet, DescribeRouteTables, CreateNatGateway]
                 @ concat (replicate 40 [DescribeNatGatewayById ''nat-new'', Sleep 15])\<rparr>)"
proof -
  have host: "truthy (OLLAMA_HOST_env never_available_env)"
    and none: "describe_subnet_resp never_available_env = Returns []"
    and created: "create_resp never_available_env = Returns ''nat-new''"
    and id: "truthy ''nat-new''"
    by (simp_all add: never_available_env_def ready_env_def quiet_env_def truthy_def)
  have never: "\<forall>j<40. describe_by_id_resp never_available_env j \<noteq> Returns True"
    by (simp add: never_available_env_def)
  from provisioning_timeout [OF host none created id, of "''llama3''" igw_world] never
  have "pull_model_task never_available_env ''llama3'' igw_world =
       (ProvisioningTimeout,
        igw_world\<lparr>trace := trace igw_world
             @ [DescribeNatGatewaysInSubnet, DescribeRouteTables, CreateNatGateway]
             @ concat (replicate 40 [DescribeNatGatewayById ''nat-new'', Sleep 15])\<rparr>)"
    by blast
  then have "pull_model_task never_available_env ''llama3'' igw_world =
       (ProvisioningTimeout,
        \<lparr>routes = routes igw_world,
         trace = [DescribeNatGatewaysInSubnet, DescribeRouteTables, CreateNatGateway]
                 @ concat (replicate 40 [DescribeNatGatewayById ''nat-new'', Sleep 15])\<rparr>)"
    by (simp add: igw_world_def)
  with host none created id show ?thesis
    by (intro conjI)
qed

text \<open>
  Claim C7. When the describe request for the subnet lists an available gateway (with a
  non-empty identifier, as every identifier of the service is), the run issues no create
  request, and no availability poll.
\<close>

theorem reuse_never_creates:
  assumes "describe_subnet_resp e = Returns (g # gs)" and "truthy g"
  shows "\<exists>calls. trace (snd (pull_model_task e m w)) = trace w @ calls
           \<and> CreateNatGateway \<notin> set calls
           \<and> (\<forall>i. DescribeNatGatewayById i \<notin> set calls)"
proof (cases "truthy (OLLAMA_HOST_env e)")
  case True
  define w2 where "w2 = issue DescribeRouteTables (issue DescribeNatGatewaysInSubnet w)"
  have run: "pull_model_task e m w = attach_pull_clean_up e m g (snapshot_of e w) w2"
    using assms True
    by (simp add: pull_model_task_def check_eq snapshot_eq snapshot_of_issue w2_def)
  obtain outcome n where tr:
      "trace (snd (attach_pull_clean_up e m g (snapshot_of e w) w2)) =
         trace w2 @ [ReplaceRoute (Some (NatGatewayId_kw g)), Sleep 20]
           @ concat (replicate n [PostPull m, AsyncSleep 60, GetTags])
           @ DeleteNatGateway g #
             (case snapshot_of e w of None \<Rightarrow> [] | Some s \<Rightarrow> [ReplaceRoute (first_target s)])"
    using apc_trace [OF assms(2), of e m "snapshot_of e w" w2] by blast
  define calls where "calls =
      [DescribeNatGatewaysInSubnet, DescribeRouteTables,
       ReplaceRoute (Some (NatGatewayId_kw g)), Sleep 20]
      @ concat (replicate n [PostPull m, AsyncSleep 60, GetTags])
      @ DeleteNatGateway g #
        (case snapshot_of e w of None \<Rightarrow> [] | Some s \<Rightarrow> [ReplaceRoute (first_target s)])"
  have "trace (snd (pull_model_task e m w)) = trace w @ calls"
    using tr by (simp add: run calls_def w2_def)
  moreover have "CreateNatGateway \<notin> set calls" "\<forall>i. DescribeNatGatewayById i \<notin> set calls"
    using in_concat_replicate [of _ n "[PostPull m, AsyncSleep 60, GetTags]"]
    by (auto simp: calls_def split: option.splits)
  ultimately show ?thesis by blast
next
  case False
  obtain outcome n where
    loop: "\<And>w. pull_loop e m w =
        (outcome, w\<lparr>trace := trace w @ concat (replicate n [PostPull m, AsyncSleep 60, GetTags])\<rparr>)"
    using pull_loop_shape [of e m] by blast
  have "trace (snd (pull_model_task e m w)) =
      trace w @ concat (replicate n [PostPull m, AsyncSleep 60, GetTags])"
    using False by (simp add: pull_model_task_def loop)
  moreover have "CreateNatGateway \<notin> set (concat (replicate n [PostPull m, AsyncSleep 60, GetTags]))"
    "\<forall>i. DescribeNatGatewayById i \<notin> set (concat (replicate n [PostPull m, AsyncSleep 60, GetTags]))"
    using in_concat_replicate [of _ n "[PostPull m, AsyncSleep 60, GetTags]"]
    by auto
  ultimately show ?thesis by blast
qed

theorem reuse_never_creates_witness:
  "describe_subnet_resp reuse_env = Returns [''nat-existing'']
   \<and> truthy ''nat-existing''
   \<and> trace igw_world = []
   \<and> CreateNatGateway \<notin> set (trace (snd (pull_model_task reuse_env ''llama3'' igw_world)))"
proof -
  have found: "describe_subnet_resp reuse_env = Returns [''nat-existing'']"
    and id: "truthy ''nat-existing''"
    and start: "trace igw_world = []"
    by (simp_all add: reuse_env_def ready_env_def igw_world_def truthy_def)
  from reuse_never_creates [OF found id, of "''llama3''" igw_world]
  have "CreateNatGateway \<notin> set (trace (snd (pull_model_task reuse_env ''llama3'' igw_world)))"
    by (auto simp: start)
  with found id start show ?thesis
    by (intro conjI)
qed


section \<open>The pull loop\<close>

text \<open>
  Claim C6. The pull loop runs at most 10 rounds. It ends with \<open>Success\<close> in the first
  round \<open>k\<close> whose tags check reports the model (status 200 and the name in the
  inventory): exactly \<open>k + 1\<close> rounds are run, each a pull request, a pause of 60 and a
  tags request. When no round reports the model, exactly 10 rounds are run and the
  outcome is \<open>NotAvailableAfterRetries\<close>. Whatever the pull request answers (a status
  that is not 2xx, an exception) changes neither the outcome nor the requests. For an
  inventory of readable entries returned with status 200, the check reports the model
  exactly when the name is listed.
\<close>

theorem pull_loop_rounds:
  "(k < 10 \<and> tags_report e m k \<and> (\<forall>j<k. \<not> tags_report e m j) \<longrightarrow>
      pull_loop e m w =
        (Success,
         w\<lparr>trace := trace w @ concat (replicate (Suc k) [PostPull m, AsyncSleep 60, GetTags])\<rparr>))
   \<and> ((\<forall>j<10. \<not> tags_report e m j) \<longrightarrow>
      pull_loop e m w =
        (NotAvailableAfterRetries,
         w\<lparr>trace := trace w @ concat (replicate 10 [PostPull m, AsyncSleep 60, GetTags])\<rparr>))
   \<and> pull_loop (e\<lparr>pull_resp := p\<rparr>) m w = pull_loop e m w
   \<and> (tags_resp e k = Returns (200, Models (map Named names)) \<longrightarrow>
        tags_report e m k = (Some m \<in> set names))"
proof -
  have "pull_loop (e\<lparr>pull_resp := p\<rparr>) m w = pull_loop e m w"
    by (simp add: pull_loop_def pull_rounds_pull_resp)
  moreover have "tags_report e m k = (Some m \<in> set names)"
    if "tags_resp e k = Returns (200, Models (map Named names))"
    using that by (simp add: tags_report_def any_name_named)
  ultimately show ?thesis
    using pull_loop_found [of k e m w] pull_loop_none [of e m w] by blast
qed

theorem pull_loop_rounds_witness:
  "\<not> tags_report found_in_round_3_env ''llama3'' 0
   \<and> \<not> tags_report found_in_round_3_env ''llama3'' 1
   \<and> tags_report found_in_round_3_env ''llama3'' 2
   \<and> pull_loop found_in_round_3_env ''llama3'' empty_world =
       (Success,
        \<lparr>routes = [],
         trace = concat (replicate 3 [PostPull ''llama3'', AsyncSleep 60, GetTags])\<rparr>)
   \<and> pull_loop quiet_env ''llama3'' empty_world =
       (NotAvailableAfterRetries,
        \<lparr>routes = [],
         trace = concat (replicate 10 [PostPull ''llama3'', AsyncSleep 60, GetTags])\<rparr>)"
proof -
  have r0: "\<not> tags_report found_in_round_3_env ''llama3'' 0"
    and r1: "\<not> tags_report found_in_round_3_env ''llama3'' 1"
    and r2: "tags_report found_in_round_3_env ''llama3'' 2"
    by (simp_all add: tags_report_def found_in_round_3_env_def quiet_env_def)
  have before: "\<forall>j<2. \<not> tags_report found_in_round_3_env ''llama3'' j"
    using r0 r1 by (auto simp: less_2_cases_iff)
  have never: "\<forall>j<10. \<not> tags_report quiet_env ''llama3'' j"
    by (simp add: tags_report_def quiet_env_def)
  have "(2::nat) < 10" by simp
  with r0 r1 r2 before never
    pull_loop_rounds [of 2 found_in_round_3_env "''llama3''" empty_world]
    pull_loop_rounds [of 0 quiet_env "''llama3''" empty_world]
  show ?thesis
    by (simp add: empty_world_def)
qed

section \<open>Stopping the tasks of the service\<close>

text \<open>
  Claim C8. When the tasks are listed, \<^verbatim>\<open>stop_ecs_tasks\<close> issues one stop request per
  listed task, in the order of the listing, whatever the stop requests answer: a stop
  that raises is logged and the loop goes on to the next task. When the names are
  configured and both capacity updates return, \<^verbatim>\<open>shutdown_ecs_service\<close> (scaling to
  zero) does so after the two updates and reports success.
\<close>

theorem stop_ecs_tasks_every_listed_task:
  "list_tasks_resp e = Returns tasks \<Longrightarrow>
   stop_ecs_tasks e c s w = w\<lparr>trace := trace w @ ListTasks c s # map (StopTask c) tasks\<rparr>
   \<and> (truthy_opt (CLUSTER_NAME e) \<and> truthy_opt (SERVICE_NAME e)
        \<and> truthy_opt (AUTOSCALING_GROUP_NAME e)
        \<and> update_asg_resp e = Returns () \<and> update_service_resp e = Returns () \<longrightarrow>
      shutdown_ecs_service e w =
        (Inr ''success'',
         w\<lparr>trace := trace w @
              [UpdateAutoScalingGroup (the (AUTOSCALING_GROUP_NAME e)) 0 0,
               UpdateService (the (CLUSTER_NAME e)) (the (SERVICE_NAME e)) 0,
               ListTasks (the (CLUSTER_NAME e)) (the (SERVICE_NAME e))]
              @ map (StopTask (the (CLUSTER_NAME e))) tasks\<rparr>))"
proof -
  assume listed: "list_tasks_resp e = Returns tasks"
  have stop: "stop_ecs_tasks e c s w =
      w\<lparr>trace := trace w @ ListTasks c s # map (StopTask c) tasks\<rparr>" for c s w
    using listed
    by (simp add: stop_ecs_tasks_def list_ecs_tasks_def Let_def stop_each_trace issue_def)
  show ?thesis
    by (simp add: stop shutdown_ecs_service_def Let_def issue_def)
qed

theorem stop_ecs_tasks_every_listed_task_witness:
  "list_tasks_resp three_tasks_env = Returns [''task-a'', ''task-b'', ''task-c'']
   \<and> stop_task_resp three_tasks_env ''task-a'' = Raises
   \<and> stop_ecs_tasks three_tasks_env ''cluster'' ''service'' empty_world =
       \<lparr>routes = [],
        trace = [ListTasks ''cluster'' ''service'', StopTask ''cluster'' ''task-a'',
                 StopTask ''cluster'' ''task-b'', StopTask ''cluster'' ''task-c'']\<rparr>
   \<and> shutdown_ecs_service three_tasks_env empty_world =
       (Inr ''success'',
        \<lparr>routes = [],
         trace = [UpdateAutoScalingGroup ''asg'' 0 0, UpdateService ''cluster'' ''service'' 0,
                  ListTasks ''cluster'' ''service'', StopTask ''cluster'' ''task-a'',
                  StopTask ''cluster'' ''task-b'', StopTask ''cluster'' ''task-c'']\<rparr>)"
proof -
  have listed: "list_tasks_resp three_tasks_env = Returns [''task-a'', ''task-b'', ''task-c'']"
    by (simp add: three_tasks_env_def)
  have names: "CLUSTER_NAME three_tasks_env = Some ''cluster''"
    "SERVICE_NAME three_tasks_env = Some ''service''"
    "AUTOSCALING_GROUP_NAME three_tasks_env = Some ''asg''"
    "update_asg_resp three_tasks_env = Returns ()"
    "update_service_resp three_tasks_env = Returns ()"
    "stop_task_resp three_tasks_env ''task-a'' = Raises"
    by (simp_all add: three_tasks_env_def quiet_env_def)
  from stop_ecs_tasks_every_listed_task [OF listed, of "''cluster''" "''service''" empty_world]
  show ?thesis
    by (simp add: listed names truthy_def empty_world_def)
qed


section \<open>The readiness status\<close>

text \<open>
  Claim C9. With the cluster and service names configured, \<^verbatim>\<open>selfhost_status\<close> returns
  (and does not raise) \<open>ready = False\<close> with status \<open>NO_TASKS\<close> when the listing is empty
  (or could not be fetched); otherwise it asks for the status of the last listed task
  only, and reports \<open>ready\<close> exactly when that status is \<open>RUNNING\<close>.
\<close>

theorem selfhost_status_last_task:
  assumes "truthy_opt (CLUSTER_NAME e)" and "truthy_opt (SERVICE_NAME e)"
  shows "(list_tasks_resp e = Raises \<or> list_tasks_resp e = Returns [] \<longrightarrow>
           selfhost_status e w =
             (Inr \<lparr>ready = False, status = Some ''NO_TASKS'', task_arn = None\<rparr>,
              w\<lparr>trace := trace w @ [ListTasks (the (CLUSTER_NAME e)) (the (SERVICE_NAME e))]\<rparr>))
       \<and> (list_tasks_resp e = Returns tasks \<and> tasks \<noteq> [] \<longrightarrow>
           selfhost_status e w =
             (Inr \<lparr>ready = (fst (get_ecs_task_status e (the (CLUSTER_NAME e)) (last tasks) w)
                             = Some ''RUNNING''),
                   status = fst (get_ecs_task_status e (the (CLUSTER_NAME e)) (last tasks) w),
                   task_arn = Some (last tasks)\<rparr>,
              w\<lparr>trace := trace w @
                   [ListTasks (the (CLUSTER_NAME e)) (the (SERVICE_NAME e)),
                    DescribeTasks (the (CLUSTER_NAME e)) (last tasks)]\<rparr>)
           \<and> (fst (get_ecs_task_status e (the (CLUSTER_NAME e)) (last tasks) w) = Some ''RUNNING'')
               = (\<exists>others. describe_tasks_resp e (last tasks) = Returns (''RUNNING'' # others)))"
proof (intro conjI impI)
  assume "list_tasks_resp e = Raises \<or> list_tasks_resp e = Returns []"
  then show "selfhost_status e w =
             (Inr \<lparr>ready = False, status = Some ''NO_TASKS'', task_arn = None\<rparr>,
              w\<lparr>trace := trace w @ [ListTasks (the (CLUSTER_NAME e)) (the (SERVICE_NAME e))]\<rparr>)"
    using assms by (auto simp: selfhost_status_def list_ecs_tasks_def Let_def issue_def)
next
  assume listed: "list_tasks_resp e = Returns tasks \<and> tasks \<noteq> []"
  show "selfhost_status e w =
             (Inr \<lparr>ready = (fst (get_ecs_task_status e (the (CLUSTER_NAME e)) (last tasks) w)
                             = Some ''RUNNING''),
                   status = fst (get_ecs_task_status e (the (CLUSTER_NAME e)) (last tasks) w),
                   task_arn = Some (last tasks)\<rparr>,
              w\<lparr>trace := trace w @
                   [ListTasks (the (CLUSTER_NAME e)) (the (SERVICE_NAME e)),
                    DescribeTasks (the (CLUSTER_NAME e)) (last tasks)]\<rparr>)"
    using assms listed
    by (simp add: selfhost_status_def list_ecs_tasks_def get_ecs_task_status_def Let_def
        issue_def split: resp.splits list.splits)
next
  show "(fst (get_ecs_task_status e (the (CLUSTER_NAME e)) (last tasks) w) = Some ''RUNNING'')
      = (\<exists>others. describe_tasks_resp e (last tasks) = Returns (''RUNNING'' # others))"
    by (auto simp: get_ecs_task_status_def Let_def split: resp.splits list.splits)
qed

theorem selfhost_status_last_task_witness:
  "truthy_opt (CLUSTER_NAME pending_last_env) \<and> truthy_opt (SERVICE_NAME pending_last_env)
   \<and> list_tasks_resp pending_last_env = Returns [''task-a'', ''task-b'']
   \<and> selfhost_status pending_last_env empty_world =
       (Inr \<lparr>ready = False, status = Some ''PENDING'', task_arn = Some ''task-b''\<rparr>,
        \<lparr>routes = [],
         trace = [ListTasks ''cluster'' ''service'', DescribeTasks ''cluster'' ''task-b'']\<rparr>)
   \<and> list_tasks_resp quiet_env = Returns []
   \<and> selfhost_status quiet_env empty_world =
       (Inr \<lparr>ready = False, status = Some ''NO_TASKS'', task_arn = None\<rparr>,
        \<lparr>routes = [], trace = [ListTasks ''cluster'' ''service'']\<rparr>)"
proof -
  have p: "truthy_opt (CLUSTER_NAME pending_last_env)" "truthy_opt (SERVICE_NAME pending_last_env)"
    and q: "truthy_opt (CLUSTER_NAME quiet_env)" "truthy_opt (SERVICE_NAME quiet_env)"
    by (simp_all add: pending_last_env_def quiet_env_def truthy_def)
  have facts: "list_tasks_resp pending_last_env = Returns [''task-a'', ''task-b'']"
    "list_tasks_resp quiet_env = Returns []"
    "CLUSTER_NAME pending_last_env = Some ''cluster''"
    "SERVICE_NAME pending_last_env = Some ''service''"
    "CLUSTER_NAME quiet_env = Some ''cluster''"
    "SERVICE_NAME quiet_env = Some ''service''"
    "describe_tasks_resp pending_last_env ''task-b'' = Returns [''PENDING'']"
    by (simp_all add: pending_last_env_def quiet_env_def)
  from selfhost_status_last_task [OF p, where tasks = "[''task-a'', ''task-b'']" and w = empty_world]
    selfhost_status_last_task [OF q, where tasks = "[]" and w = empty_world]
  show ?thesis
    by (simp add: facts truthy_def get_ecs_task_status_def Let_def empty_world_def)
qed


text \<open>
  Claim C10. With the names configured and a listing that is not empty, when the status
  request for the last listed task raises, \<^verbatim>\<open>selfhost_status\<close> does not raise: it
  returns \<open>ready = False\<close>, a \<open>None\<close> status and the reference of that task.
\<close>

theorem selfhost_status_describe_fails:
  assumes "truthy_opt (CLUSTER_NAME e)" and "truthy_opt (SERVICE_NAME e)"
    and "list_tasks_resp e = Returns tasks" and "tasks \<noteq> []"
    and "describe_tasks_resp e (last tasks) = Raises"
  shows "selfhost_status e w =
           (Inr \<lparr>ready = False, status = None, task_arn = Some (last tasks)\<rparr>,
            w\<lparr>trace := trace w @
                 [ListTasks (the (CLUSTER_NAME e)) (the (SERVICE_NAME e)),
                  DescribeTasks (the (CLUSTER_NAME e)) (last tasks)]\<rparr>)"
  using assms
  by (simp add: selfhost_status_def list_ecs_tasks_def get_ecs_task_status_def Let_def issue_def)

theorem selfhost_status_describe_fails_witness:
  "truthy_opt (CLUSTER_NAME three_tasks_env) \<and> truthy_opt (SERVICE_NAME three_tasks_env)
   \<and> list_tasks_resp three_tasks_env = Returns [''task-a'', ''task-b'', ''task-c'']
   \<and> describe_tasks_resp three_tasks_env ''task-c'' = Raises
   \<and> selfhost_status three_tasks_env empty_world =
       (Inr \<lparr>ready = False, status = None, task_arn = Some ''task-c''\<rparr>,
        \<lparr>routes = [],
         trace = [ListTasks ''cluster'' ''service'', DescribeTasks ''cluster'' ''task-c'']\<rparr>)"
proof -
  have c: "truthy_opt (CLUSTER_NAME three_tasks_env)"
    and s: "truthy_opt (SERVICE_NAME three_tasks_env)"
    by (simp_all add: three_tasks_env_def quiet_env_def truthy_def)
  have l: "list_tasks_resp three_tasks_env = Returns [''task-a'', ''task-b'', ''task-c'']"
    by (simp add: three_tasks_env_def)
  have n: "[''task-a'', ''task-b'', ''task-c''] \<noteq> []"
    by simp
  have d: "describe_tasks_resp three_tasks_env (last [''task-a'', ''task-b'', ''task-c'']) = Raises"
    by (simp add: three_tasks_env_def)
  have names: "CLUSTER_NAME three_tasks_env = Some ''cluster''"
    "SERVICE_NAME three_tasks_env = Some ''service''"
    by (simp_all add: three_tasks_env_def quiet_env_def)
  from selfhost_status_describe_fails [OF c s l n d, of empty_world] d
  show ?thesis
    by (simp add: l names truthy_def empty_world_def)
qed

end
